theory Spec2Isabelle
  imports Complex_Main "HOL-Library.Word"
begin

section \<open>The AWS S3 receiver: time-partitioned reader and status notifier\<close>

text \<open>
  A shallow embedding of \<^verbatim>\<open>receiver/awss3receiver\<close>: the reader
  (\<^verbatim>\<open>s3reader.go\<close>: \<^verbatim>\<open>newS3Reader\<close>, \<^verbatim>\<open>readAll\<close>,
  \<^verbatim>\<open>readTelemetryForTime\<close>, \<^verbatim>\<open>getObjectPrefixForTime\<close>,
  \<^verbatim>\<open>retrieveObject\<close>, \<^verbatim>\<open>getTimeKeyPartitionHour\<close>,
  \<^verbatim>\<open>getTimeKeyPartitionMinute\<close>), the capability interfaces of
  \<^verbatim>\<open>s3intf.go\<close>, and the mock registry of \<^verbatim>\<open>notifications_test.go\<close>.
\<close>

subsection \<open>Go values used by the reader\<close>

text \<open>
  A Go \<^verbatim>\<open>error\<close> is an opaque value carrying a message; \<^verbatim>\<open>nil\<close> is
  \<open>None\<close> of \<open>error option\<close>, and a \<^verbatim>\<open>(T, error)\<close> result is \<open>error + T\<close>.
\<close>

datatype error = Error string

type_synonym bytes = "8 word list"

text \<open>
  \<^verbatim>\<open>time.Duration\<close> is a count of nanoseconds; \<^verbatim>\<open>time.Hour\<close> and
  \<^verbatim>\<open>time.Minute\<close> are the library's constants.
\<close>

type_synonym duration = int

definition Nanosecond :: duration where "Nanosecond = 1"
definition Second :: duration where "Second = 1000000000 * Nanosecond"
definition Minute :: duration where "Minute = 60 * Second"
definition Hour :: duration where "Hour = 60 * Minute"

text \<open>
  \<^verbatim>\<open>time.Time\<close> is an instant together with a location. The instant is kept as
  nanoseconds since the Unix epoch; the location gives, for a Unix second, the offset in seconds
  east of UTC that is in force then (constantly 0 for UTC, a constant for a fixed zone, varying
  for a zone with daylight saving). \<^verbatim>\<open>Before\<close> compares instants, \<^verbatim>\<open>Add\<close> moves
  the instant and keeps the location. The library's instants are bounded; every instant between
  two parsed dates lies well inside the bound, so the model uses unbounded integers.
\<close>

record go_time =
  unixNano :: int
  loc :: "int \<Rightarrow> int"

definition Before :: "go_time \<Rightarrow> go_time \<Rightarrow> bool" where
  "Before t u = (unixNano t < unixNano u)"

definition Add :: "go_time \<Rightarrow> duration \<Rightarrow> go_time" where
  "Add t d = t\<lparr>unixNano := unixNano t + d\<rparr>"

text \<open>
  The calendar reading of an instant (\<^verbatim>\<open>t.Date()\<close>, \<^verbatim>\<open>t.Clock()\<close>,
  \<^verbatim>\<open>t.Hour()\<close>) is the proleptic Gregorian date and the wall clock of the local
  second count. \<open>civil_of_days\<close> counts days from 0000-03-01, so that a leap day is the last
  day of its four-year and four-hundred-year cycle: \<open>year_day_of_era_day\<close> cuts the day of a
  400-year era into centuries, four-year cycles and years (counted from March), and
  \<open>month_day_of_year_day\<close> reads month and day off the day of such a year.
\<close>

definition localSeconds :: "go_time \<Rightarrow> int" where
  "localSeconds t = (let s = unixNano t div 1000000000 in s + loc t s)"

definition year_day_of_era_day :: "int \<Rightarrow> int \<times> int" where
  "year_day_of_era_day doe =
     (let n100 = min (doe div 36524) 3;
          d100 = doe - 36524 * n100;
          n4 = d100 div 1461;
          d4 = d100 mod 1461;
          n1 = min (d4 div 365) 3
      in (100 * n100 + 4 * n4 + n1, d4 - 365 * n1))"

definition month_day_of_year_day :: "int \<Rightarrow> int \<times> int" where
  "month_day_of_year_day doy =
     (let mp = (5 * doy + 2) div 153
      in (if mp < 10 then mp + 3 else mp - 9, doy - (153 * mp + 2) div 5 + 1))"

definition civil_of_days :: "int \<Rightarrow> int \<times> int \<times> int" where
  "civil_of_days z =
     (let z0 = z + 719468;
          era = z0 div 146097
      in case year_day_of_era_day (z0 mod 146097) of (yoe, doy) \<Rightarrow>
         case month_day_of_year_day doy of (m, d) \<Rightarrow>
           (if m \<le> 2 then 400 * era + yoe + 1 else 400 * era + yoe, m, d))"

definition Date :: "go_time \<Rightarrow> int \<times> int \<times> int" where
  "Date t = civil_of_days (localSeconds t div 86400)"

definition Clock :: "go_time \<Rightarrow> int \<times> int \<times> int" where
  "Clock t =
     (let s = localSeconds t mod 86400
      in (s div 3600, (s mod 3600) div 60, s mod 60))"

definition HourOf :: "go_time \<Rightarrow> int" where
  "HourOf t = (localSeconds t mod 86400) div 3600"

subsection \<open>The two verbs of \<^verbatim>\<open>fmt.Sprintf\<close> the reader uses\<close>

definition digit_char :: "nat \<Rightarrow> char" where
  "digit_char n = ''0123456789'' ! n"

function decimal_nat :: "nat \<Rightarrow> string" where
  "decimal_nat n =
     (if n < 10 then [digit_char n] else decimal_nat (n div 10) @ [digit_char (n mod 10)])"
  by pat_completeness auto
termination
  by (relation "measure id") auto

declare decimal_nat.simps [simp del]

text \<open>\<^verbatim>\<open>%d\<close>: the decimal digits, with a minus sign for a negative number.\<close>

definition fmt_d :: "int \<Rightarrow> string" where
  "fmt_d i = (if i < 0 then ''-'' @ decimal_nat (nat (- i)) else decimal_nat (nat i))"

text \<open>
  \<^verbatim>\<open>%02d\<close>: width 2, padded with zeros; the sign of a negative number takes one of
  the two columns.
\<close>

definition fmt_02d :: "int \<Rightarrow> string" where
  "fmt_02d i =
     (let s = decimal_nat (nat \<bar>i\<bar>)
      in if i < 0 then ''-'' @ replicate (1 - length s) (CHR ''0'') @ s
         else replicate (2 - length s) (CHR ''0'') @ s)"

subsection \<open>Key prefixes\<close>

text \<open>
  The partition names are constants of the configuration file of the package; their values are
  the ones the error message of \<^verbatim>\<open>newS3Reader\<close> and the comparison in
  \<^verbatim>\<open>readAll\<close> spell out.
\<close>

definition S3PartitionHour :: string where "S3PartitionHour = ''hour''"
definition S3PartitionMinute :: string where "S3PartitionMinute = ''minute''"

definition getTimeKeyPartitionHour :: "go_time \<Rightarrow> string" where
  "getTimeKeyPartitionHour t =
     (case Date t of (year, month, day) \<Rightarrow>
        let hour = HourOf t
        in ''year='' @ fmt_d year @ ''/month='' @ fmt_02d month @ ''/day='' @ fmt_02d day
           @ ''/hour='' @ fmt_02d hour)"

definition getTimeKeyPartitionMinute :: "go_time \<Rightarrow> string" where
  "getTimeKeyPartitionMinute t =
     (case Date t of (year, month, day) \<Rightarrow>
        case Clock t of (hour, minute, _) \<Rightarrow>
          ''year='' @ fmt_d year @ ''/month='' @ fmt_02d month @ ''/day='' @ fmt_02d day
          @ ''/hour='' @ fmt_02d hour @ ''/minute='' @ fmt_02d minute)"

subsection \<open>Capability interfaces (\<^verbatim>\<open>s3intf.go\<close>)\<close>

text \<open>
  The object store, the sink and the cancellation signal are foreign code. Their calls act on a
  world \<open>'w\<close> that the model threads through every call, so that a later call may answer
  differently from an earlier one. An interface is a record of its methods.

  \<^verbatim>\<open>ListObjectsAPI.NewListObjectsV2Paginator(params)\<close> receives the bucket and the prefix
  and answers with a pager in state \<open>'p\<close>; \<^verbatim>\<open>ListObjectsV2Pager.HasMorePages()\<close> reads
  that state and \<^verbatim>\<open>NextPage(ctx)\<close> answers with an error or with the keys of
  \<^verbatim>\<open>page.Contents\<close>, in the order of the page, and the next pager state. The object store
  gives every listed object a key, so a key is a string and not a nullable pointer.

  \<^verbatim>\<open>GetObjectAPI.GetObject\<close> answers with an error or with an output whose body, read to
  its end by \<^verbatim>\<open>io.ReadAll\<close>, gives an error or the bytes; closing the body afterwards
  has no effect that the reader observes.
\<close>

record ('w, 'p) ListObjectsAPI =
  NewListObjectsV2Paginator :: "string \<Rightarrow> string \<Rightarrow> 'w \<Rightarrow> 'p \<times> 'w"
  HasMorePages :: "'p \<Rightarrow> bool"
  NextPage :: "'p \<Rightarrow> 'w \<Rightarrow> (error + string list) \<times> 'p \<times> 'w"

type_synonym 'w GetObjectAPI = "string \<Rightarrow> string \<Rightarrow> 'w \<Rightarrow> (error + (error + bytes)) \<times> 'w"

text \<open>\<^verbatim>\<open>s3ReaderDataCallback\<close>: the sink, called with a key and the bytes of its object.\<close>

type_synonym 'w s3ReaderDataCallback = "string \<Rightarrow> bytes \<Rightarrow> 'w \<Rightarrow> error option \<times> 'w"

text \<open>
  The only use \<^verbatim>\<open>readAll\<close> makes of its context is the non-blocking poll of
  \<^verbatim>\<open>ctx.Done()\<close>: whether the context is cancelled in the present world.
\<close>

type_synonym 'w Context = "'w \<Rightarrow> bool"

subsection \<open>The reader\<close>

record ('w, 'p) s3Reader =
  listObjectsClient :: "('w, 'p) ListObjectsAPI"
  getObjectClient :: "'w GetObjectAPI"
  s3Bucket :: string
  s3Prefix :: string
  s3Partition :: string
  filePrefix :: string
  startTime :: go_time
  endTime :: go_time

definition getObjectPrefixForTime :: "('w, 'p) s3Reader \<Rightarrow> go_time \<Rightarrow> string \<Rightarrow> string" where
  "getObjectPrefixForTime r t telemetryType =
     (let timeKey =
            (if s3Partition r = S3PartitionMinute then getTimeKeyPartitionMinute t
             else if s3Partition r = S3PartitionHour then getTimeKeyPartitionHour t
             else [])
      in if s3Prefix r \<noteq> [] then
           s3Prefix r @ ''/'' @ timeKey @ ''/'' @ filePrefix r @ telemetryType @ ''_''
         else timeKey @ ''/'' @ filePrefix r @ telemetryType @ ''_'')"

subsection \<open>Construction\<close>

text \<open>
  The parts of the configuration that the reader and the client read. \<^verbatim>\<open>newS3Client\<close>
  builds the clients of the real object store and \<^verbatim>\<open>parseTime\<close> reads a time bound
  (its second argument names the setting in the error message); both are parameters of the model.
\<close>

record S3DownloaderConfig =
  Region :: string
  S3Bucket :: string
  S3Prefix :: string
  S3Partition :: string
  FilePrefix :: string
  Endpoint :: string
  S3ForcePathStyle :: bool

record Config =
  S3Downloader :: S3DownloaderConfig
  StartTime :: string
  EndTime :: string

definition newS3Reader ::
  "(S3DownloaderConfig \<Rightarrow> error + ('w, 'p) ListObjectsAPI \<times> 'w GetObjectAPI)
   \<Rightarrow> (string \<Rightarrow> string \<Rightarrow> error + go_time) \<Rightarrow> Config \<Rightarrow> error + ('w, 'p) s3Reader" where
  "newS3Reader newS3Client parseTime cfg =
     (case newS3Client (S3Downloader cfg) of
        Inl err \<Rightarrow> Inl err
      | Inr (listObjectsClient', getObjectClient') \<Rightarrow>
     (case parseTime (StartTime cfg) ''starttime'' of
        Inl err \<Rightarrow> Inl err
      | Inr startTime' \<Rightarrow>
     (case parseTime (EndTime cfg) ''endtime'' of
        Inl err \<Rightarrow> Inl err
      | Inr endTime' \<Rightarrow>
     if S3Partition (S3Downloader cfg) \<noteq> S3PartitionHour
        \<and> S3Partition (S3Downloader cfg) \<noteq> S3PartitionMinute
     then Inl (Error (''s3_partition must be either 'hour' or 'minute'' @ [CHR 0x27]))
     else Inr \<lparr>listObjectsClient = listObjectsClient',
               getObjectClient = getObjectClient',
               s3Bucket = S3Bucket (S3Downloader cfg),
               s3Prefix = S3Prefix (S3Downloader cfg),
               s3Partition = S3Partition (S3Downloader cfg),
               filePrefix = FilePrefix (S3Downloader cfg),
               startTime = startTime',
               endTime = endTime'\<rparr>)))"

subsection \<open>Reading\<close>

text \<open>
  What a run does is recorded as the list of its events, in order: the log lines (message and
  fields) and the foreign calls, each with its result.
\<close>

datatype event =
    LogInfo string "(string \<times> string) list"
  | LogDebug string "(string \<times> string) list"
  | EvListObjects string string
  | EvNextPage "error + string list"
  | EvGetObject string string "error + bytes"
  | EvCallback string bytes "error option"

text \<open>
  A pager may have pages without end, so the page loop runs on a budget of \<open>fuel\<close> calls of
  \<^verbatim>\<open>NextPage\<close> for each listing. A run either returns (\<^verbatim>\<open>nil\<close> or an error) or
  is still running when the budget ends.
\<close>

datatype outcome = Returned "error option" | OutOfFuel

definition emit :: "event list \<Rightarrow> outcome \<times> event list \<times> 'w \<Rightarrow> outcome \<times> event list \<times> 'w" where
  "emit es x = (case x of (res, evs, w) \<Rightarrow> (res, es @ evs, w))"

definition retrieveObject :: "('w, 'p) s3Reader \<Rightarrow> string \<Rightarrow> 'w \<Rightarrow> (error + bytes) \<times> 'w" where
  "retrieveObject r key w =
     (case getObjectClient r (s3Bucket r) key w of
        (Inl err, w') \<Rightarrow> (Inl err, w')
      | (Inr body, w') \<Rightarrow>
          (case body of
             Inl err \<Rightarrow> (Inl err, w')
           | Inr contents \<Rightarrow> (Inr contents, w')))"

text \<open>The loop over \<^verbatim>\<open>page.Contents\<close> in \<^verbatim>\<open>readTelemetryForTime\<close>.\<close>

fun readObjects ::
  "('w, 'p) s3Reader \<Rightarrow> 'w s3ReaderDataCallback \<Rightarrow> string list \<Rightarrow> 'w
   \<Rightarrow> error option \<times> event list \<times> 'w" where
  "readObjects r dataCallback [] w = (None, [], w)"
| "readObjects r dataCallback (key # keys) w =
     (case retrieveObject r key w of
        (Inl err, w1) \<Rightarrow> (Some err, [EvGetObject (s3Bucket r) key (Inl err)], w1)
      | (Inr data, w1) \<Rightarrow>
          (case dataCallback key data w1 of
             (Some err, w2) \<Rightarrow>
               (Some err,
                [EvGetObject (s3Bucket r) key (Inr data),
                 LogDebug ''Retrieved telemetry'' [(''key'', key)],
                 EvCallback key data (Some err)], w2)
           | (None, w2) \<Rightarrow>
               (case readObjects r dataCallback keys w2 of
                  (res, evs, w3) \<Rightarrow>
                    (res,
                     [EvGetObject (s3Bucket r) key (Inr data),
                      LogDebug ''Retrieved telemetry'' [(''key'', key)],
                      EvCallback key data None] @ evs, w3))))"

text \<open>The loop over the pages in \<^verbatim>\<open>readTelemetryForTime\<close>.\<close>

fun readPages ::
  "nat \<Rightarrow> ('w, 'p) s3Reader \<Rightarrow> string \<Rightarrow> 'w s3ReaderDataCallback \<Rightarrow> bool \<Rightarrow> 'p \<Rightarrow> 'w
   \<Rightarrow> outcome \<times> event list \<times> 'w" where
  "readPages 0 r prefix dataCallback firstPage p w =
     (if HasMorePages (listObjectsClient r) p then (OutOfFuel, [], w)
      else (Returned None, [], w))"
| "readPages (Suc fuel) r prefix dataCallback firstPage p w =
     (if HasMorePages (listObjectsClient r) p then
        (case NextPage (listObjectsClient r) p w of
           (Inl err, p', w1) \<Rightarrow> (Returned (Some err), [EvNextPage (Inl err)], w1)
         | (Inr contents, p', w1) \<Rightarrow>
             if firstPage \<and> length contents = 0 then
               emit [EvNextPage (Inr contents),
                     LogInfo ''No telemetry found for time'' [(''prefix'', prefix)]]
                 (readPages fuel r prefix dataCallback False p' w1)
             else
               (case readObjects r dataCallback contents w1 of
                  (Some err, evs, w2) \<Rightarrow>
                    (Returned (Some err), EvNextPage (Inr contents) # evs, w2)
                | (None, evs, w2) \<Rightarrow>
                    emit (EvNextPage (Inr contents) # evs)
                      (readPages fuel r prefix dataCallback False p' w2)))
      else (Returned None, [], w))"

definition readTelemetryForTime ::
  "nat \<Rightarrow> ('w, 'p) s3Reader \<Rightarrow> go_time \<Rightarrow> string \<Rightarrow> 'w s3ReaderDataCallback \<Rightarrow> 'w
   \<Rightarrow> outcome \<times> event list \<times> 'w" where
  "readTelemetryForTime fuel r t telemetryType dataCallback w =
     (let prefix = getObjectPrefixForTime r t telemetryType
      in case NewListObjectsV2Paginator (listObjectsClient r) (s3Bucket r) prefix w of
           (p, w1) \<Rightarrow>
             emit [LogDebug ''Reading telemetry for time'' [(''prefix'', prefix)],
                   EvListObjects (s3Bucket r) prefix]
               (readPages fuel r prefix dataCallback True p w1))"

definition timeStep :: "('w, 'p) s3Reader \<Rightarrow> duration" where
  "timeStep r = (if s3Partition r = ''hour'' then Hour else Minute)"

text \<open>The loop over the time steps in \<^verbatim>\<open>readAll\<close>, from the cursor \<open>currentTime\<close> on.\<close>

function readAll_loop ::
  "nat \<Rightarrow> 'w Context \<Rightarrow> ('w, 'p) s3Reader \<Rightarrow> string \<Rightarrow> 'w s3ReaderDataCallback \<Rightarrow> go_time \<Rightarrow> 'w
   \<Rightarrow> outcome \<times> event list \<times> 'w" where
  "readAll_loop fuel ctx r telemetryType dataCallback currentTime w =
     (if Before currentTime (endTime r) then
        (if ctx w then (Returned None, [], w)
         else
           (case readTelemetryForTime fuel r currentTime telemetryType dataCallback w of
              (res, evs, w1) \<Rightarrow>
                (case res of
                   Returned None \<Rightarrow>
                     emit evs
                       (readAll_loop fuel ctx r telemetryType dataCallback
                          (Add currentTime (timeStep r)) w1)
                 | _ \<Rightarrow> (res, evs, w1))))
      else (Returned None, [LogInfo ''Finished reading telemetry'' []], w))"
  by pat_completeness auto
termination
  by (relation "measure (\<lambda>(fuel, ctx, r, telemetryType, dataCallback, currentTime, w).
        nat (unixNano (endTime r) - unixNano currentTime))")
     (auto simp: Before_def Add_def timeStep_def Hour_def Minute_def Second_def Nanosecond_def)

declare readAll_loop.simps [simp del]

definition readAll ::
  "nat \<Rightarrow> 'w Context \<Rightarrow> ('w, 'p) s3Reader \<Rightarrow> string \<Rightarrow> 'w s3ReaderDataCallback \<Rightarrow> 'w
   \<Rightarrow> outcome \<times> event list \<times> 'w" where
  "readAll fuel ctx r telemetryType dataCallback w =
     emit [LogInfo ''Start reading telemetry'' []]
       (readAll_loop fuel ctx r telemetryType dataCallback (startTime r) w)"

subsection \<open>The layout of a key prefix, as the specification words it\<close>

text \<open>
  \<open>[<s3Prefix>/]year=<Y>/month=<MM>/day=<DD>/hour=<HH>[/minute=<mm>]/<filePrefix><telemetryType>_\<close>:
  the year in plain decimal, month, day, hour and minute as exactly two decimal digits, the
  minute only for the minute granularity and the leading part only for a non-empty prefix.
\<close>

definition two_digits :: "int \<Rightarrow> string" where
  "two_digits n = [digit_char (nat (n div 10)), digit_char (nat (n mod 10))]"

definition key_prefix_layout ::
  "string \<Rightarrow> string \<Rightarrow> bool \<Rightarrow> int \<Rightarrow> int \<Rightarrow> int \<Rightarrow> int \<Rightarrow> int \<Rightarrow> string \<Rightarrow> string" where
  "key_prefix_layout pre fpre with_minute Y M D H m telemetryType =
     (if pre \<noteq> [] then pre @ ''/'' else [])
     @ ''year='' @ fmt_d Y @ ''/month='' @ two_digits M @ ''/day='' @ two_digits D
     @ ''/hour='' @ two_digits H
     @ (if with_minute then ''/minute='' @ two_digits m else [])
     @ ''/'' @ fpre @ telemetryType @ ''_''"

subsection \<open>Reading off a run\<close>

text \<open>
  The listing requests of a run (bucket and prefix), the calls of the sink (key and bytes) and the
  objects fetched (key and bytes), each in the order of the run.
\<close>

fun listing_calls :: "event list \<Rightarrow> (string \<times> string) list" where
  "listing_calls [] = []"
| "listing_calls (EvListObjects bucket prefix # evs) = (bucket, prefix) # listing_calls evs"
| "listing_calls (ev # evs) = listing_calls evs"

fun sink_calls :: "event list \<Rightarrow> (string \<times> bytes) list" where
  "sink_calls [] = []"
| "sink_calls (EvCallback key data res # evs) = (key, data) # sink_calls evs"
| "sink_calls (ev # evs) = sink_calls evs"






subsection \<open>The status notifier\<close>

text \<open>
  The notifier's source file (\<^verbatim>\<open>notifications.go\<close>, with \<^verbatim>\<open>statusNotification\<close>,
  \<^verbatim>\<open>opampNotifier.SendStatus\<close>, \<^verbatim>\<open>maxNotificationAttempts\<close> and the names of the
  ingest status values) is not among the sources; its test and the mock registry of the test
  are. The notifier is therefore modelled from the specification, and the channel capability
  from the mock.
\<close>

text \<open>
  Modelled from the spec: \<open>IngestStatus\<close> of section 3, in place of the status constants of the
  absent \<^verbatim>\<open>notifications.go\<close>.
\<close>

datatype IngestStatus = NotStarted | Ingesting | Completed | Failed

text \<open>
  Modelled from the spec: \<open>StatusNotification\<close> of section 3, in place of the struct
  \<^verbatim>\<open>statusNotification\<close> of the absent \<^verbatim>\<open>notifications.go\<close>, with the field names the
  test uses (the bounds of the time window are \<open>WindowStart\<close> and \<open>WindowEnd\<close> here; a
  notification without a failure has the empty message).
\<close>

record statusNotification =
  TelemetryType :: string
  IngestStatus :: IngestStatus
  IngestTime :: go_time
  WindowStart :: go_time
  WindowEnd :: go_time
  FailureMessage :: string

text \<open>
  Modelled from the spec: the value of a log attribute in the output log schema of section 6
  (a string or a 64-bit integer), which the absent \<^verbatim>\<open>SendStatus\<close> builds.
\<close>

datatype attribute_value = AttrStr string | AttrInt "64 word"

text \<open>
  Modelled from the spec: the log record of the output log schema of section 6, which the absent
  \<^verbatim>\<open>SendStatus\<close> builds. A timestamp is a 64-bit count of nanoseconds since the Unix
  epoch; the attributes are kept in the order they are put.
\<close>

record logRecord =
  Timestamp :: "64 word"
  Body :: string
  Attributes :: "(string \<times> attribute_value) list"

text \<open>
  Modelled from the spec: the epoch-nanosecond timestamp of a time (sections 4.2 and 6), which
  the absent \<^verbatim>\<open>SendStatus\<close> takes of the notification's times and the test takes with
  \<^verbatim>\<open>pcommon.NewTimestampFromTime\<close>; the count wraps to 64 bits.
\<close>

definition NewTimestampFromTime :: "go_time \<Rightarrow> 64 word" where
  "NewTimestampFromTime t = word_of_int (unixNano t)"

text \<open>
  Modelled from the spec: step 1 of \<open>sendStatus\<close> in section 4.2 and the schema of section 6,
  in place of the serialisation in the absent \<^verbatim>\<open>SendStatus\<close>. The names of the status
  values are not in the sources and are the parameter \<open>statusName\<close>.
\<close>

definition statusLogRecord :: "(IngestStatus \<Rightarrow> string) \<Rightarrow> statusNotification \<Rightarrow> logRecord" where
  "statusLogRecord statusName n =
     \<lparr>Timestamp = NewTimestampFromTime (IngestTime n),
      Body = ''status'',
      Attributes =
        [(''telemetry_type'', AttrStr (TelemetryType n)),
         (''ingest_status'', AttrStr (statusName (IngestStatus n))),
         (''start_time'', AttrInt (NewTimestampFromTime (WindowStart n))),
         (''end_time'', AttrInt (NewTimestampFromTime (WindowEnd n)))]
        @ (if IngestStatus n = Failed then [(''failure_message'', AttrStr (FailureMessage n))]
           else [])\<rparr>"

text \<open>
  The channel capability, as the mock of the test implements it: \<^verbatim>\<open>SendMessage\<close> answers
  \<^verbatim>\<open>(nil, nil)\<close> when the message is sent, a channel and
  \<^verbatim>\<open>types.ErrCustomMessagePending\<close> when it is pending, and another error otherwise. It
  acts on the state \<open>'h\<close> of the capability. \<open>Await\<close> is the receive on the channel of a
  pending answer: the state of the capability once the signal has fired.
\<close>

datatype 'c sendResult = Sent | Pending 'c | SendError error

record ('h, 'c, 'm) CustomCapabilityHandler =
  SendMessage :: "string \<Rightarrow> 'm \<Rightarrow> 'h \<Rightarrow> 'c sendResult \<times> 'h"
  Await :: "'c \<Rightarrow> 'h \<Rightarrow> 'h"

text \<open>
  What a call of \<open>sendStatus\<close> does is recorded as the list of its events, in order: the
  submissions with their answers, the waits, and the two log lines.
\<close>

datatype ('c, 'm) notifier_event =
    EvSendMessage string 'm "'c sendResult"
  | EvAwait 'c
  | LogSendError error
  | LogAttemptsExhausted

text \<open>
  Modelled from the spec: steps 2 to 4 of \<open>sendStatus\<close> in section 4.2, in place of the retry
  loop of the absent \<^verbatim>\<open>SendStatus\<close>; the first argument is the number of attempts left.
\<close>

fun sendAttempts ::
  "nat \<Rightarrow> ('h, 'c, 'm) CustomCapabilityHandler \<Rightarrow> string \<Rightarrow> 'm \<Rightarrow> 'h
   \<Rightarrow> ('c, 'm) notifier_event list \<times> 'h" where
  "sendAttempts 0 handler messageType msg h = ([LogAttemptsExhausted], h)"
| "sendAttempts (Suc n) handler messageType msg h =
     (case SendMessage handler messageType msg h of
        (Sent, h1) \<Rightarrow> ([EvSendMessage messageType msg Sent], h1)
      | (Pending c, h1) \<Rightarrow>
          (case sendAttempts n handler messageType msg (Await handler c h1) of
             (evs, h2) \<Rightarrow> ([EvSendMessage messageType msg (Pending c), EvAwait c] @ evs, h2))
      | (SendError err, h1) \<Rightarrow>
          ([EvSendMessage messageType msg (SendError err), LogSendError err], h1))"

text \<open>
  Modelled from the spec: the fixed message-type tag of step 2 of \<open>sendStatus\<close> in section 4.2;
  its value is the one the test expects of a sent message.
\<close>

definition statusMessageType :: string where
  "statusMessageType = ''TimeBasedIngestStatus''"

text \<open>
  Modelled from the spec: \<open>sendStatus\<close> of section 4.2, in place of the absent
  \<^verbatim>\<open>opampNotifier.SendStatus\<close>. The maximum number of attempts
  (\<^verbatim>\<open>maxNotificationAttempts\<close>) and the serialiser of a batch of log records are
  parameters.
\<close>

definition sendStatus ::
  "nat \<Rightarrow> (logRecord list \<Rightarrow> 'm) \<Rightarrow> (IngestStatus \<Rightarrow> string)
   \<Rightarrow> ('h, 'c, 'm) CustomCapabilityHandler \<Rightarrow> statusNotification \<Rightarrow> 'h
   \<Rightarrow> ('c, 'm) notifier_event list \<times> 'h" where
  "sendStatus maxNotificationAttempts marshal statusName handler notification h =
     sendAttempts maxNotificationAttempts handler statusMessageType
       (marshal [statusLogRecord statusName notification]) h"

text \<open>
  Reading off a call of \<open>sendStatus\<close>: the number of its submissions, the messages it
  delivered, and the number of its waits.
\<close>

fun attempts :: "('c, 'm) notifier_event list \<Rightarrow> nat" where
  "attempts [] = 0"
| "attempts (EvSendMessage messageType msg res # evs) = Suc (attempts evs)"
| "attempts (ev # evs) = attempts evs"

fun delivered :: "('c, 'm) notifier_event list \<Rightarrow> 'm list" where
  "delivered [] = []"
| "delivered (EvSendMessage messageType msg Sent # evs) = msg # delivered evs"
| "delivered (ev # evs) = delivered evs"

fun awaits :: "('c, 'm) notifier_event list \<Rightarrow> nat" where
  "awaits [] = 0"
| "awaits (EvAwait c # evs) = Suc (awaits evs)"
| "awaits (ev # evs) = awaits evs"

subsection \<open>The mock registry of the notifier's test\<close>

text \<open>
  \<^verbatim>\<open>mockCustomCapabilityRegistry\<close> of \<^verbatim>\<open>notifications_test.go\<close>. The closure
  \<^verbatim>\<open>shouldReturnPending\<close> of a test keeps a counter of its calls; it is a function of that
  counter, which the mock's state carries as \<open>pendingAsked\<close>. The pending channel carries no
  data, and the test fires it for every wait.
\<close>

record 'm customMessage =
  messageType :: string
  message :: 'm

record 'm mockCustomCapabilityRegistry =
  shouldFailRegister :: bool
  shouldReturnPending :: "(nat \<Rightarrow> bool) option"
  pendingAsked :: nat
  shouldFailSend :: bool
  sendMessageCalls :: nat
  unregisterCalled :: bool
  sentMessages :: "'m customMessage list"

definition mock_SendMessage ::
  "string \<Rightarrow> 'm \<Rightarrow> 'm mockCustomCapabilityRegistry
   \<Rightarrow> unit sendResult \<times> 'm mockCustomCapabilityRegistry" where
  "mock_SendMessage mt msg m =
     (let m1 = m\<lparr>sendMessageCalls := sendMessageCalls m + 1\<rparr>
      in if unregisterCalled m1 then (SendError (Error ''unregister called''), m1)
         else
           (case (case shouldReturnPending m1 of
                    None \<Rightarrow> (False, m1)
                  | Some f \<Rightarrow> (f (pendingAsked m1), m1\<lparr>pendingAsked := Suc (pendingAsked m1)\<rparr>)) of
              (pending, m2) \<Rightarrow>
                if pending then (Pending (), m2)
                else if shouldFailSend m2 then (SendError (Error ''send failed''), m2)
                else (Sent,
                      m2\<lparr>sentMessages :=
                           sentMessages m2 @ [\<lparr>messageType = mt, message = msg\<rparr>]\<rparr>)))"

definition mock_handler ::
  "('m mockCustomCapabilityRegistry, unit, 'm) CustomCapabilityHandler" where
  "mock_handler = \<lparr>SendMessage = mock_SendMessage, Await = (\<lambda>c m. m)\<rparr>"

definition mock_registry :: "(nat \<Rightarrow> bool) option \<Rightarrow> bool \<Rightarrow> 'm mockCustomCapabilityRegistry" where
  "mock_registry pending failSend =
     \<lparr>shouldFailRegister = False, shouldReturnPending = pending, pendingAsked = 0,
      shouldFailSend = failSend, sendMessageCalls = 0, unregisterCalled = False,
      sentMessages = []\<rparr>"

text \<open>The closure of the retry-limit test: pending at every call.\<close>

definition always_pending :: "nat \<Rightarrow> bool" where
  "always_pending calls = True"

subsection \<open>A test double of the object store\<close>

text \<open>
  A lister and a getter in the manner of the package's tests, for running the reader on concrete
  input. The world counts the foreign calls made so far. The lister answers from a table from
  prefixes to pages, with a single empty page for any other prefix; a pager is the list of the
  pages it still has.
\<close>

definition UTC :: "int \<Rightarrow> int" where
  "UTC = (\<lambda>_. 0)"

definition unixUTC :: "int \<Rightarrow> go_time" where
  "unixUTC sec = \<lparr>unixNano = sec * 1000000000, loc = UTC\<rparr>"

definition table_lister :: "(string \<times> string list list) list \<Rightarrow> (nat, string list list) ListObjectsAPI" where
  "table_lister tbl =
     \<lparr>NewListObjectsV2Paginator =
        (\<lambda>bucket prefix w. (case map_of tbl prefix of None \<Rightarrow> [[]] | Some pages \<Rightarrow> pages, Suc w)),
      HasMorePages = (\<lambda>p. p \<noteq> []),
      NextPage =
        (\<lambda>p w. case p of
                  [] \<Rightarrow> (Inl (Error ''no more pages''), [], Suc w)
                | page # rest \<Rightarrow> (Inr page, rest, Suc w))\<rparr>"


definition const_getter :: "bytes \<Rightarrow> nat GetObjectAPI" where
  "const_getter data = (\<lambda>bucket key w. (Inr (Inr data), Suc w))"

definition failing_getter :: "nat GetObjectAPI" where
  "failing_getter = (\<lambda>bucket key w. (Inl (Error ''no such key''), Suc w))"

definition accepting_sink :: "nat s3ReaderDataCallback" where
  "accepting_sink = (\<lambda>key data w. (None, Suc w))"


definition never_cancelled :: "nat Context" where
  "never_cancelled = (\<lambda>w. False)"

definition cancelled_from :: "nat \<Rightarrow> nat Context" where
  "cancelled_from k = (\<lambda>w. k \<le> w)"

text \<open>
  The scenario: hourly partitions from 2021-01-01T00:00Z to 2021-01-01T02:00Z, nothing stored for
  hour 00 and one object for hour 01.
\<close>

definition scenario_pages :: "(string \<times> string list list) list" where
  "scenario_pages =
     [(''year=2021/month=01/day=01/hour=00/logs_'', [[]]),
      (''year=2021/month=01/day=01/hour=01/logs_'',
       [[''year=2021/month=01/day=01/hour=01/logs_1'']])]"

definition scenario_reader ::
  "(nat, string list list) ListObjectsAPI \<Rightarrow> nat GetObjectAPI \<Rightarrow> int \<Rightarrow> int
   \<Rightarrow> (nat, string list list) s3Reader" where
  "scenario_reader lister getter start end' =
     \<lparr>listObjectsClient = lister,
      getObjectClient = getter,
      s3Bucket = ''bucket'',
      s3Prefix = [],
      s3Partition = ''hour'',
      filePrefix = [],
      startTime = unixUTC start,
      endTime = unixUTC end'\<rparr>"

subsection \<open>A test double of construction\<close>

text \<open>
  A client factory that always succeeds and a time parser that knows two bounds, for running
  \<^verbatim>\<open>newS3Reader\<close> on concrete input.
\<close>

definition scenario_window :: "(nat, string list list) s3Reader" where
  "scenario_window =
     scenario_reader (table_lister scenario_pages) (const_getter [1, 2, 3]) 1609459200 1609466400"

definition example_newS3Client ::
  "S3DownloaderConfig \<Rightarrow> error + (nat, string list list) ListObjectsAPI \<times> nat GetObjectAPI" where
  "example_newS3Client cfg = Inr (table_lister scenario_pages, const_getter [1, 2, 3])"

definition example_parseTime :: "string \<Rightarrow> string \<Rightarrow> error + go_time" where
  "example_parseTime timeStr configName =
     (if timeStr = ''2021-01-01T00:00:00Z'' then Inr (unixUTC 1609459200)
      else if timeStr = ''2021-01-01T02:00:00Z'' then Inr (unixUTC 1609466400)
      else Inl (Error (''unable to parse '' @ configName)))"

definition example_config :: "string \<Rightarrow> string \<Rightarrow> Config" where
  "example_config start end' =
     \<lparr>S3Downloader =
        \<lparr>Region = ''us-east-1'', S3Bucket = ''bucket'', S3Prefix = [], S3Partition = ''hour'',
         FilePrefix = [], Endpoint = [], S3ForcePathStyle = False\<rparr>,
      StartTime = start,
      EndTime = end'\<rparr>"

subsection \<open>Notifications for the mock registry\<close>

definition example_statusName :: "IngestStatus \<Rightarrow> string" where
  "example_statusName s =
     (case s of NotStarted \<Rightarrow> ''not_started'' | Ingesting \<Rightarrow> ''ingesting''
      | Completed \<Rightarrow> ''completed'' | Failed \<Rightarrow> ''failed'')"

definition example_notification :: "IngestStatus \<Rightarrow> statusNotification" where
  "example_notification s =
     \<lparr>TelemetryType = ''telemetry'', IngestStatus = s, IngestTime = unixUTC 1609459200,
      WindowStart = unixUTC 1609459200, WindowEnd = unixUTC 1609459200,
      FailureMessage = (if s = Failed then ''bucket unreachable'' else [])\<rparr>"

section \<open>Verified properties\<close>

subsection \<open>Calendar fields and the two-digit verb\<close>

lemma month_day_of_year_day_bounds:
  assumes "0 \<le> doy" "doy \<le> 365" "month_day_of_year_day doy = (m, d)"
  shows "1 \<le> m \<and> m \<le> 12 \<and> 1 \<le> d \<and> d \<le> 31"
proof -
  define mp where "mp = (5 * doy + 2) div 153"
  have a: "0 \<le> mp" "mp \<le> 11" using assms(1,2) unfolding mp_def by linarith+
  have b: "153 * mp \<le> 5 * doy + 2" "5 * doy + 2 < 153 * mp + 153" unfolding mp_def by linarith+
  have m: "m = (if mp < 10 then mp + 3 else mp - 9)" and d: "d = doy - (153 * mp + 2) div 5 + 1"
    using assms(3) unfolding month_day_of_year_day_def Let_def mp_def by simp_all
  from a have "mp = 0 \<or> mp = 1 \<or> mp = 2 \<or> mp = 3 \<or> mp = 4 \<or> mp = 5 \<or> mp = 6 \<or> mp = 7
     \<or> mp = 8 \<or> mp = 9 \<or> mp = 10 \<or> mp = 11" by arith
  then show ?thesis unfolding m d using b assms(1,2) by (elim disjE) simp_all
qed

lemma year_day_of_era_day_bounds:
  assumes "year_day_of_era_day doe = (yoe, doy)"
  shows "0 \<le> doy \<and> doy \<le> 365"
proof -
  define d4 where "d4 = (doe - 36524 * min (doe div 36524) 3) mod 1461"
  have doy: "doy = d4 - 365 * min (d4 div 365) 3"
    using assms unfolding year_day_of_era_day_def Let_def d4_def by simp
  have "0 \<le> d4" "d4 < 1461" by (simp_all add: d4_def)
  then show ?thesis unfolding doy by (auto simp: min_def)
qed

lemma civil_of_days_bounds:
  assumes "civil_of_days z = (y, m, d)"
  shows "1 \<le> m \<and> m \<le> 12 \<and> 1 \<le> d \<and> d \<le> 31"
proof -
  obtain yoe doy where yd: "year_day_of_era_day ((z + 719468) mod 146097) = (yoe, doy)"
    by (cases "year_day_of_era_day ((z + 719468) mod 146097)")
  obtain m' d' where md: "month_day_of_year_day doy = (m', d')"
    by (cases "month_day_of_year_day doy")
  from assms have "m = m'" "d = d'"
    by (simp_all add: civil_of_days_def Let_def yd md)
  moreover from year_day_of_era_day_bounds [OF yd] have "0 \<le> doy" "doy \<le> 365" by simp_all
  ultimately show ?thesis using month_day_of_year_day_bounds [OF _ _ md] by simp
qed

lemma Date_bounds:
  assumes "Date t = (y, m, d)"
  shows "1 \<le> m \<and> m \<le> 12 \<and> 1 \<le> d \<and> d \<le> 31"
  using assms unfolding Date_def by (rule civil_of_days_bounds)

lemma Clock_bounds:
  assumes "Clock t = (h, mi, s)"
  shows "0 \<le> h \<and> h \<le> 23 \<and> 0 \<le> mi \<and> mi \<le> 59 \<and> 0 \<le> s \<and> s \<le> 59"
proof -
  define x where "x = localSeconds t mod 86400"
  have x: "0 \<le> x" "x < 86400" by (simp_all add: x_def)
  have "h = x div 3600" "mi = (x mod 3600) div 60" "s = x mod 60"
    using assms by (simp_all add: Clock_def Let_def x_def)
  with x show ?thesis by auto
qed

lemma HourOf_Clock: "HourOf t = fst (Clock t)"
  by (simp add: HourOf_def Clock_def Let_def)

lemma decimal_nat_small: "n < 10 \<Longrightarrow> decimal_nat n = [digit_char n]"
  by (simp add: decimal_nat.simps)

lemma decimal_nat_two:
  "10 \<le> n \<Longrightarrow> n < 100 \<Longrightarrow> decimal_nat n = [digit_char (n div 10), digit_char (n mod 10)]"
  by (subst decimal_nat.simps) (simp add: decimal_nat_small)

lemma fmt_02d_two_digits: "0 \<le> n \<Longrightarrow> n < 100 \<Longrightarrow> fmt_02d n = two_digits n"
proof (cases "n < 10")
  case True
  assume "0 \<le> n" "n < 100"
  with True show ?thesis
    by (simp add: fmt_02d_def two_digits_def decimal_nat_small Let_def digit_char_def)
next
  case False
  assume "0 \<le> n" "n < 100"
  with False have "10 \<le> nat n" "nat n < 100" by simp_all
  then have "decimal_nat (nat n) = [digit_char (nat n div 10), digit_char (nat n mod 10)]"
    by (rule decimal_nat_two)
  with \<open>0 \<le> n\<close> show ?thesis
    by (simp add: fmt_02d_def two_digits_def Let_def nat_div_distrib nat_mod_distrib)
qed

subsection \<open>Key prefixes\<close>

text \<open>
  Claim C2. The key prefix is a function of the step's time, the granularity, the configured
  \<open>s3Prefix\<close> and \<open>filePrefix\<close> and the telemetry type alone (it is a HOL function of
  exactly these), and for a reader whose granularity is hour or minute it is the string
  \<open>[<s3Prefix>/]year=<Y>/month=<MM>/day=<DD>/hour=<HH>[/minute=<mm>]/<filePrefix><telemetryType>_\<close>:
  the year in plain decimal, month, day, hour and minute as exactly two decimal digits (their
  values lie in 1..12, 1..31, 0..23 and 0..59), the minute part present exactly for the minute
  granularity and the leading \<open><s3Prefix>/\<close> exactly for a non-empty \<open>s3Prefix\<close>.
\<close>

theorem key_prefix_layout_refined:
  assumes "s3Partition r = S3PartitionHour \<or> s3Partition r = S3PartitionMinute"
      and "Date t = (Y, M, D)" and "Clock t = (H, m, s)"
  shows "getObjectPrefixForTime r t telemetryType =
           key_prefix_layout (s3Prefix r) (filePrefix r) (s3Partition r = S3PartitionMinute)
             Y M D H m telemetryType
         \<and> 1 \<le> M \<and> M \<le> 12 \<and> 1 \<le> D \<and> D \<le> 31 \<and> 0 \<le> H \<and> H \<le> 23 \<and> 0 \<le> m \<and> m \<le> 59"
proof -
  from Date_bounds [OF assms(2)] have MD: "1 \<le> M" "M \<le> 12" "1 \<le> D" "D \<le> 31" by simp_all
  from Clock_bounds [OF assms(3)] have Hm: "0 \<le> H" "H \<le> 23" "0 \<le> m" "m \<le> 59" by simp_all
  have f: "fmt_02d M = two_digits M" "fmt_02d D = two_digits D"
    "fmt_02d H = two_digits H" "fmt_02d m = two_digits m"
    using MD Hm by (simp_all add: fmt_02d_two_digits)
  have hr: "HourOf t = H" using assms(3) by (simp add: HourOf_Clock)
  have "getObjectPrefixForTime r t telemetryType =
           key_prefix_layout (s3Prefix r) (filePrefix r) (s3Partition r = S3PartitionMinute)
             Y M D H m telemetryType"
    using assms(1)
    by (auto simp: getObjectPrefixForTime_def key_prefix_layout_def getTimeKeyPartitionHour_def
        getTimeKeyPartitionMinute_def assms(2,3) hr f S3PartitionHour_def S3PartitionMinute_def)
  with MD Hm show ?thesis by simp
qed

theorem key_prefix_layout_refined_witness:
  "getObjectPrefixForTime (scenario_reader (table_lister []) failing_getter 0 0)
       (unixUTC 1709215505) ''logs''
     = ''year=2024/month=02/day=29/hour=14/logs_''
   \<and> getObjectPrefixForTime
       ((scenario_reader (table_lister []) failing_getter 0 0)
          \<lparr>s3Prefix := ''archive'', s3Partition := ''minute'', filePrefix := ''otel-''\<rparr>)
       (unixUTC 1709215505) ''traces''
     = ''archive/year=2024/month=02/day=29/hour=14/minute=05/otel-traces_''"
proof -
  let ?r = "scenario_reader (table_lister []) failing_getter 0 0"
  let ?r' = "?r\<lparr>s3Prefix := ''archive'', s3Partition := ''minute'', filePrefix := ''otel-''\<rparr>"
  have d: "Date (unixUTC 1709215505) = (2024, 2, 29)" by code_simp
  have c: "Clock (unixUTC 1709215505) = (14, 5, 5)" by code_simp
  have p: "s3Partition ?r = S3PartitionHour \<or> s3Partition ?r = S3PartitionMinute" by code_simp
  have p': "s3Partition ?r' = S3PartitionHour \<or> s3Partition ?r' = S3PartitionMinute" by code_simp
  have "getObjectPrefixForTime ?r (unixUTC 1709215505) ''logs''
        = key_prefix_layout (s3Prefix ?r) (filePrefix ?r) (s3Partition ?r = S3PartitionMinute)
            2024 2 29 14 5 ''logs''"
    using key_prefix_layout_refined [OF p d c] by (rule conjunct1)
  also have "\<dots> = ''year=2024/month=02/day=29/hour=14/logs_''" by code_simp
  finally have 1: "getObjectPrefixForTime ?r (unixUTC 1709215505) ''logs''
     = ''year=2024/month=02/day=29/hour=14/logs_''" .
  have "getObjectPrefixForTime ?r' (unixUTC 1709215505) ''traces''
        = key_prefix_layout (s3Prefix ?r') (filePrefix ?r') (s3Partition ?r' = S3PartitionMinute)
            2024 2 29 14 5 ''traces''"
    using key_prefix_layout_refined [OF p' d c] by (rule conjunct1)
  also have "\<dots> = ''archive/year=2024/month=02/day=29/hour=14/minute=05/otel-traces_''"
    by code_simp
  finally have 2: "getObjectPrefixForTime ?r' (unixUTC 1709215505) ''traces''
     = ''archive/year=2024/month=02/day=29/hour=14/minute=05/otel-traces_''" .
  from 1 2 show ?thesis by (rule conjI)
qed

subsection \<open>Events of a run\<close>


lemma emit_simps [simp]: "emit es (res, evs, w) = (res, es @ evs, w)"
  by (simp add: emit_def)




lemma Add_zero [simp]: "Add t 0 = t"
  by (simp add: Add_def)


lemma unixNano_Add [simp]: "unixNano (Add t d) = unixNano t + d"
  by (simp add: Add_def)

subsection \<open>An empty time window\<close>

text \<open>
  Claim C10. For every reader whose \<open>startTime\<close> is not strictly before its \<open>endTime\<close>, and
  for every telemetry type, sink, cancellation signal, page budget and world, \<open>readAll\<close>
  returns \<^verbatim>\<open>nil\<close> having only logged its start and its end: it issues no listing call,
  never calls the sink and leaves the world as it was.
\<close>

theorem readAll_empty_window:
  assumes "\<not> Before (startTime r) (endTime r)"
  shows "readAll fuel ctx r telemetryType dataCallback w =
           (Returned None,
            [LogInfo ''Start reading telemetry'' [], LogInfo ''Finished reading telemetry'' []], w)"
  using assms by (simp add: readAll_def readAll_loop.simps)

theorem readAll_empty_window_witness:
  "readAll 5 never_cancelled
     (scenario_reader (table_lister scenario_pages) (const_getter [1, 2, 3]) 1609466400 1609459200)
     ''logs'' accepting_sink 0 =
   (Returned None,
    [LogInfo ''Start reading telemetry'' [], LogInfo ''Finished reading telemetry'' []], 0)
   \<and> listing_calls [LogInfo ''Start reading telemetry'' [], LogInfo ''Finished reading telemetry'' []] = []
   \<and> sink_calls [LogInfo ''Start reading telemetry'' [], LogInfo ''Finished reading telemetry'' []] = []"
proof -
  have "\<not> Before (startTime (scenario_reader (table_lister scenario_pages) (const_getter [1, 2, 3])
              1609466400 1609459200))
          (endTime (scenario_reader (table_lister scenario_pages) (const_getter [1, 2, 3])
              1609466400 1609459200))"
    by (simp add: scenario_reader_def unixUTC_def Before_def)
  from readAll_empty_window [OF this] show ?thesis by simp
qed

subsection \<open>Cancellation\<close>

text \<open>
  Claim C3. At every step (the cursor \<open>currentTime\<close> still before \<open>endTime\<close>), if the
  cancellation signal is set when \<open>readAll\<close> polls it before the step, the loop stops at once
  and returns \<^verbatim>\<open>nil\<close>: from that point on the run has no event at all, so no listing call
  is issued at or after the cancellation point, and the world is left as it was.
\<close>

theorem readAll_loop_cancelled:
  assumes "Before currentTime (endTime r)" and "ctx w"
  shows "readAll_loop fuel ctx r telemetryType dataCallback currentTime w = (Returned None, [], w)"
  using assms by (simp add: readAll_loop.simps)

theorem readAll_loop_cancelled_witness:
  "readAll 5 (cancelled_from 2) scenario_window ''logs'' accepting_sink 0 =
     (Returned None,
      [LogInfo ''Start reading telemetry'' [],
       LogDebug ''Reading telemetry for time''
         [(''prefix'', ''year=2021/month=01/day=01/hour=00/logs_'')],
       EvListObjects ''bucket'' ''year=2021/month=01/day=01/hour=00/logs_'',
       EvNextPage (Inr []),
       LogInfo ''No telemetry found for time''
         [(''prefix'', ''year=2021/month=01/day=01/hour=00/logs_'')]],
      2)"
proof -
  let ?t0 = "startTime scenario_window"
  let ?t1 = "Add ?t0 (timeStep scenario_window)"
  have b0: "Before ?t0 (endTime scenario_window)" by code_simp
  have b1: "Before ?t1 (endTime scenario_window)" by code_simp
  have c0: "\<not> cancelled_from 2 (0::nat)" by code_simp
  have c2: "cancelled_from 2 (2::nat)" by code_simp
  have step: "readTelemetryForTime 5 scenario_window ?t0 ''logs'' accepting_sink 0 =
     (Returned None,
      [LogDebug ''Reading telemetry for time''
         [(''prefix'', ''year=2021/month=01/day=01/hour=00/logs_'')],
       EvListObjects ''bucket'' ''year=2021/month=01/day=01/hour=00/logs_'',
       EvNextPage (Inr []),
       LogInfo ''No telemetry found for time''
         [(''prefix'', ''year=2021/month=01/day=01/hour=00/logs_'')]],
      2)"
    by code_simp
  have stop: "readAll_loop 5 (cancelled_from 2) scenario_window ''logs'' accepting_sink ?t1 2
      = (Returned None, [], 2)"
    using b1 c2 by (rule readAll_loop_cancelled)
  show ?thesis
    unfolding readAll_def
    by (subst readAll_loop.simps) (simp add: b0 c0 step stop)
qed

subsection \<open>One listing call for every step\<close>











subsection \<open>Errors abort the run\<close>









subsection \<open>Pages\<close>







subsection \<open>Construction\<close>

text \<open>
  Claim C6, as stated, fails: \<^verbatim>\<open>newS3Reader\<close> never compares the two bounds. A
  configuration whose start is two hours after its end, with a valid granularity, yields a
  reader.
\<close>

theorem newS3Reader_accepts_reversed_window:
  "newS3Reader example_newS3Client example_parseTime
       (example_config ''2021-01-01T02:00:00Z'' ''2021-01-01T00:00:00Z'')
     = Inr (scenario_reader (table_lister scenario_pages) (const_getter [1, 2, 3])
              1609466400 1609459200)
   \<and> example_parseTime ''2021-01-01T02:00:00Z'' ''starttime'' = Inr (unixUTC 1609466400)
   \<and> example_parseTime ''2021-01-01T00:00:00Z'' ''endtime'' = Inr (unixUTC 1609459200)
   \<and> \<not> Before (unixUTC 1609466400) (unixUTC 1609459200)"
  by (simp add: newS3Reader_def example_newS3Client_def example_parseTime_def example_config_def
      scenario_reader_def S3PartitionHour_def S3PartitionMinute_def Before_def unixUTC_def)

text \<open>
  Claim C6, amended. Construction fails exactly when the client cannot be created, a time bound
  does not parse, or the granularity is neither hour nor minute; the order of the two bounds is
  not examined. Every reader it returns has granularity hour or minute, the parsed bounds as
  \<open>startTime\<close> and \<open>endTime\<close>, the created clients, and the bucket and prefixes of the
  configuration.
\<close>

theorem newS3Reader_checks:
  "(newS3Reader newS3Client parseTime cfg = Inr r \<longrightarrow>
      (s3Partition r = S3PartitionHour \<or> s3Partition r = S3PartitionMinute)
      \<and> parseTime (StartTime cfg) ''starttime'' = Inr (startTime r)
      \<and> parseTime (EndTime cfg) ''endtime'' = Inr (endTime r)
      \<and> newS3Client (S3Downloader cfg) = Inr (listObjectsClient r, getObjectClient r)
      \<and> s3Partition r = S3Partition (S3Downloader cfg)
      \<and> s3Bucket r = S3Bucket (S3Downloader cfg)
      \<and> s3Prefix r = S3Prefix (S3Downloader cfg)
      \<and> filePrefix r = FilePrefix (S3Downloader cfg))
   \<and> ((\<exists>r. newS3Reader newS3Client parseTime cfg = Inr r) \<longleftrightarrow>
        (\<exists>clients. newS3Client (S3Downloader cfg) = Inr clients)
        \<and> (\<exists>s. parseTime (StartTime cfg) ''starttime'' = Inr s)
        \<and> (\<exists>e. parseTime (EndTime cfg) ''endtime'' = Inr e)
        \<and> (S3Partition (S3Downloader cfg) = S3PartitionHour
           \<or> S3Partition (S3Downloader cfg) = S3PartitionMinute))"
proof (rule conjI)
  show "newS3Reader newS3Client parseTime cfg = Inr r \<longrightarrow>
      (s3Partition r = S3PartitionHour \<or> s3Partition r = S3PartitionMinute)
      \<and> parseTime (StartTime cfg) ''starttime'' = Inr (startTime r)
      \<and> parseTime (EndTime cfg) ''endtime'' = Inr (endTime r)
      \<and> newS3Client (S3Downloader cfg) = Inr (listObjectsClient r, getObjectClient r)
      \<and> s3Partition r = S3Partition (S3Downloader cfg)
      \<and> s3Bucket r = S3Bucket (S3Downloader cfg)
      \<and> s3Prefix r = S3Prefix (S3Downloader cfg)
      \<and> filePrefix r = FilePrefix (S3Downloader cfg)"
    by (auto simp: newS3Reader_def split: sum.splits prod.splits if_splits)
next
  show "(\<exists>r. newS3Reader newS3Client parseTime cfg = Inr r) \<longleftrightarrow>
        (\<exists>clients. newS3Client (S3Downloader cfg) = Inr clients)
        \<and> (\<exists>s. parseTime (StartTime cfg) ''starttime'' = Inr s)
        \<and> (\<exists>e. parseTime (EndTime cfg) ''endtime'' = Inr e)
        \<and> (S3Partition (S3Downloader cfg) = S3PartitionHour
           \<or> S3Partition (S3Downloader cfg) = S3PartitionMinute)"
    by (auto simp: newS3Reader_def split: sum.splits prod.splits if_splits)
qed

theorem newS3Reader_checks_witness:
  "newS3Reader example_newS3Client example_parseTime
       (example_config ''2021-01-01T00:00:00Z'' ''2021-01-01T02:00:00Z'') = Inr scenario_window
   \<and> s3Partition scenario_window = S3PartitionHour
   \<and> example_parseTime ''2021-01-01T00:00:00Z'' ''starttime'' = Inr (startTime scenario_window)
   \<and> example_parseTime ''2021-01-01T02:00:00Z'' ''endtime'' = Inr (endTime scenario_window)"
proof -
  have c: "newS3Reader example_newS3Client example_parseTime
       (example_config ''2021-01-01T00:00:00Z'' ''2021-01-01T02:00:00Z'') = Inr scenario_window"
    by (simp add: newS3Reader_def example_newS3Client_def example_parseTime_def example_config_def
      scenario_window_def scenario_reader_def S3PartitionHour_def S3PartitionMinute_def)
  have m: "s3Partition scenario_window \<noteq> S3PartitionMinute"
    by (simp add: scenario_window_def scenario_reader_def S3PartitionMinute_def)
  from newS3Reader_checks [of example_newS3Client example_parseTime
      "example_config ''2021-01-01T00:00:00Z'' ''2021-01-01T02:00:00Z''" scenario_window] c m
  show ?thesis by (simp add: example_config_def)
qed

subsection \<open>The status notifier\<close>

text \<open>
  Claim C7. When the first submission is delivered, \<open>sendStatus\<close> makes exactly that one
  submission, under the message type \<open>TimeBasedIngestStatus\<close>, of the serialised batch holding
  exactly one log record: its timestamp is the notification's ingest time, its body the string
  \<open>status\<close>, and its attributes are \<open>telemetry_type\<close> and \<open>ingest_status\<close> (strings),
  \<open>start_time\<close> and \<open>end_time\<close> (64-bit epoch nanoseconds), and \<open>failure_message\<close> exactly
  when the status is \<open>Failed\<close>.
\<close>

theorem sendStatus_delivered_record:
  assumes "0 < maxNotificationAttempts"
      and "SendMessage handler statusMessageType
             (marshal [statusLogRecord statusName n]) h = (Sent, h1)"
  shows "sendStatus maxNotificationAttempts marshal statusName handler n h =
           ([EvSendMessage statusMessageType (marshal [statusLogRecord statusName n]) Sent], h1)
         \<and> statusMessageType = ''TimeBasedIngestStatus''
         \<and> Timestamp (statusLogRecord statusName n) = NewTimestampFromTime (IngestTime n)
         \<and> Body (statusLogRecord statusName n) = ''status''
         \<and> Attributes (statusLogRecord statusName n) =
             [(''telemetry_type'', AttrStr (TelemetryType n)),
              (''ingest_status'', AttrStr (statusName (IngestStatus n))),
              (''start_time'', AttrInt (NewTimestampFromTime (WindowStart n))),
              (''end_time'', AttrInt (NewTimestampFromTime (WindowEnd n)))]
             @ (if IngestStatus n = Failed
                then [(''failure_message'', AttrStr (FailureMessage n))] else [])
         \<and> ((map_of (Attributes (statusLogRecord statusName n)) ''failure_message'' \<noteq> None)
              = (IngestStatus n = Failed))"
proof -
  from assms(1) obtain k where k: "maxNotificationAttempts = Suc k"
    by (cases maxNotificationAttempts) simp_all
  show ?thesis
    using assms(2) by (simp add: sendStatus_def k statusLogRecord_def statusMessageType_def)
qed

theorem sendStatus_delivered_record_witness:
  "sendStatus 3 id example_statusName mock_handler (example_notification Ingesting)
       (mock_registry None False)
     = ([EvSendMessage ''TimeBasedIngestStatus''
           [\<lparr>Timestamp = 1609459200000000000, Body = ''status'',
             Attributes =
               [(''telemetry_type'', AttrStr ''telemetry''),
                (''ingest_status'', AttrStr ''ingesting''),
                (''start_time'', AttrInt 1609459200000000000),
                (''end_time'', AttrInt 1609459200000000000)]\<rparr>]
           Sent],
        \<lparr>shouldFailRegister = False, shouldReturnPending = None, pendingAsked = 0,
         shouldFailSend = False, sendMessageCalls = 1, unregisterCalled = False,
         sentMessages =
           [\<lparr>messageType = ''TimeBasedIngestStatus'',
             message =
               [\<lparr>Timestamp = 1609459200000000000, Body = ''status'',
                 Attributes =
                   [(''telemetry_type'', AttrStr ''telemetry''),
                    (''ingest_status'', AttrStr ''ingesting''),
                    (''start_time'', AttrInt 1609459200000000000),
                    (''end_time'', AttrInt 1609459200000000000)]\<rparr>]\<rparr>]\<rparr>)
   \<and> map_of (Attributes (statusLogRecord example_statusName (example_notification Ingesting)))
        ''failure_message'' = None"
proof -
  let ?n = "example_notification Ingesting"
  let ?rec = "\<lparr>Timestamp = 1609459200000000000, Body = ''status'',
             Attributes =
               [(''telemetry_type'', AttrStr ''telemetry''),
                (''ingest_status'', AttrStr ''ingesting''),
                (''start_time'', AttrInt 1609459200000000000),
                (''end_time'', AttrInt 1609459200000000000)]\<rparr>"
  let ?h1 = "\<lparr>shouldFailRegister = False, shouldReturnPending = None, pendingAsked = 0,
         shouldFailSend = False, sendMessageCalls = 1, unregisterCalled = False,
         sentMessages = [\<lparr>messageType = ''TimeBasedIngestStatus'', message = [?rec]\<rparr>]\<rparr>"
  have rec: "statusLogRecord example_statusName ?n = ?rec"
    by (simp add: statusLogRecord_def example_statusName_def example_notification_def
        NewTimestampFromTime_def unixUTC_def)
  have tag: "statusMessageType = ''TimeBasedIngestStatus''"
    by (simp add: statusMessageType_def)
  have sent: "SendMessage mock_handler statusMessageType
      (id [statusLogRecord example_statusName ?n]) (mock_registry None False) = (Sent, ?h1)"
    by (simp add: rec tag mock_handler_def mock_SendMessage_def mock_registry_def Let_def)
  have st: "IngestStatus ?n \<noteq> Failed"
    by (simp add: example_notification_def)
  have three: "0 < (3::nat)" by simp
  from sendStatus_delivered_record
         [where maxNotificationAttempts = 3 and marshal = id and statusName = example_statusName
            and handler = mock_handler and n = ?n and h = "mock_registry None False"
            and ?h1.0 = ?h1, OF three sent] st
  show ?thesis
    by (simp add: rec tag)
qed

lemma sendAttempts_always_pending:
  assumes inv: "I h"
      and pend: "\<forall>h. I h \<longrightarrow>
            (\<exists>c h'. SendMessage handler tag msg h = (Pending c, h')
                   \<and> I (Await handler c h'))"
  shows "attempts (fst (sendAttempts n handler tag msg h)) = n
         \<and> awaits (fst (sendAttempts n handler tag msg h)) = n
         \<and> delivered (fst (sendAttempts n handler tag msg h)) = []
         \<and> last (fst (sendAttempts n handler tag msg h)) = LogAttemptsExhausted
         \<and> fst (sendAttempts n handler tag msg h) \<noteq> []"
  using inv
proof (induction n arbitrary: h)
  case 0
  show ?case by simp
next
  case (Suc n)
  from pend Suc.prems obtain c h'
    where s: "SendMessage handler tag msg h = (Pending c, h')"
      and i: "I (Await handler c h')"
    by blast
  obtain evs h2 where rec: "sendAttempts n handler tag msg (Await handler c h') = (evs, h2)"
    by (cases "sendAttempts n handler tag msg (Await handler c h')")
  with Suc.IH [OF i] s show ?case by simp
qed

text \<open>
  Claim C8. When the capability answers pending at every submission (from a state satisfying
  \<open>I\<close>, which every wait preserves), \<open>sendStatus\<close> waits for the signal after each pending
  answer and submits again, makes exactly \<open>maxNotificationAttempts\<close> submissions and as many
  waits, delivers nothing, logs last that the attempts are exhausted, and returns: the loop ends
  within the bound.
\<close>

theorem sendStatus_always_pending:
  assumes inv: "I h"
      and pend: "\<forall>h. I h \<longrightarrow>
            (\<exists>c h'. SendMessage handler statusMessageType
                      (marshal [statusLogRecord statusName n]) h = (Pending c, h')
                   \<and> I (Await handler c h'))"
  shows "attempts (fst (sendStatus maxNotificationAttempts marshal statusName handler n h))
           = maxNotificationAttempts
         \<and> awaits (fst (sendStatus maxNotificationAttempts marshal statusName handler n h))
           = maxNotificationAttempts
         \<and> delivered (fst (sendStatus maxNotificationAttempts marshal statusName handler n h)) = []
         \<and> last (fst (sendStatus maxNotificationAttempts marshal statusName handler n h))
           = LogAttemptsExhausted"
  using sendAttempts_always_pending [of I h handler statusMessageType
      "marshal [statusLogRecord statusName n]" maxNotificationAttempts, OF inv pend]
  by (simp add: sendStatus_def)

theorem sendStatus_always_pending_witness:
  "attempts (fst (sendStatus 3 id example_statusName mock_handler (example_notification Ingesting)
       (mock_registry (Some always_pending) False))) = 3
   \<and> awaits (fst (sendStatus 3 id example_statusName mock_handler (example_notification Ingesting)
       (mock_registry (Some always_pending) False))) = 3
   \<and> delivered (fst (sendStatus 3 id example_statusName mock_handler
       (example_notification Ingesting) (mock_registry (Some always_pending) False))) = []
   \<and> sendMessageCalls (snd (sendStatus 3 id example_statusName mock_handler
       (example_notification Ingesting) (mock_registry (Some always_pending) False))) = 3
   \<and> sentMessages (snd (sendStatus 3 id example_statusName mock_handler
       (example_notification Ingesting) (mock_registry (Some always_pending) False))) = []"
proof -
  let ?I = "\<lambda>m :: logRecord list mockCustomCapabilityRegistry.
              \<not> unregisterCalled m \<and> shouldReturnPending m = Some always_pending"
  have inv: "?I (mock_registry (Some always_pending) False)"
    by (simp add: mock_registry_def)
  have pend: "\<forall>h. ?I h \<longrightarrow>
     (\<exists>c h'. SendMessage mock_handler statusMessageType
                (id [statusLogRecord example_statusName (example_notification Ingesting)]) h
              = (Pending c, h')
            \<and> ?I (Await mock_handler c h'))"
    by (simp add: mock_handler_def mock_SendMessage_def always_pending_def Let_def)
  have calls: "sendMessageCalls (snd (sendStatus 3 id example_statusName mock_handler
       (example_notification Ingesting) (mock_registry (Some always_pending) False))) = 3"
    "sentMessages (snd (sendStatus 3 id example_statusName mock_handler
       (example_notification Ingesting) (mock_registry (Some always_pending) False))) = []"
    by code_simp+
  from sendStatus_always_pending
         [where I = ?I and marshal = id and statusName = example_statusName
            and handler = mock_handler and n = "example_notification Ingesting"
            and h = "mock_registry (Some always_pending) False"
            and maxNotificationAttempts = 3, OF inv pend] calls
  show ?thesis
    by simp
qed

text \<open>
  Claim C9. When the submission fails with an error that is not the pending signal,
  \<open>sendStatus\<close> logs the error and returns after that single submission: it does not submit
  again, delivers nothing, and its result carries no error for the caller.
\<close>

theorem sendStatus_hard_error:
  assumes "0 < maxNotificationAttempts"
      and "SendMessage handler statusMessageType
             (marshal [statusLogRecord statusName n]) h = (SendError err, h1)"
  shows "sendStatus maxNotificationAttempts marshal statusName handler n h =
           ([EvSendMessage statusMessageType (marshal [statusLogRecord statusName n])
               (SendError err),
             LogSendError err], h1)
         \<and> attempts (fst (sendStatus maxNotificationAttempts marshal statusName handler n h)) = 1
         \<and> delivered (fst (sendStatus maxNotificationAttempts marshal statusName handler n h)) = []"
proof -
  from assms(1) obtain k where k: "maxNotificationAttempts = Suc k"
    by (cases maxNotificationAttempts) simp_all
  show ?thesis
    using assms(2) by (simp add: sendStatus_def k)
qed

theorem sendStatus_hard_error_witness:
  "attempts (fst (sendStatus 3 id example_statusName mock_handler (example_notification Ingesting)
       (mock_registry None True))) = 1
   \<and> delivered (fst (sendStatus 3 id example_statusName mock_handler
       (example_notification Ingesting) (mock_registry None True))) = []
   \<and> snd (sendStatus 3 id example_statusName mock_handler (example_notification Ingesting)
       (mock_registry None True))
     = \<lparr>shouldFailRegister = False, shouldReturnPending = None, pendingAsked = 0,
        shouldFailSend = True, sendMessageCalls = 1, unregisterCalled = False,
        sentMessages = []\<rparr>"
proof -
  let ?h1 = "\<lparr>shouldFailRegister = False, shouldReturnPending = None, pendingAsked = 0,
        shouldFailSend = True, sendMessageCalls = 1, unregisterCalled = False,
        sentMessages = []\<rparr> :: logRecord list mockCustomCapabilityRegistry"
  have err: "SendMessage mock_handler statusMessageType
      (id [statusLogRecord example_statusName (example_notification Ingesting)])
      (mock_registry None True) = (SendError (Error ''send failed''), ?h1)"
    by (simp add: mock_handler_def mock_SendMessage_def mock_registry_def Let_def)
  have three: "0 < (3::nat)" by simp
  from sendStatus_hard_error
         [where maxNotificationAttempts = 3 and marshal = id and statusName = example_statusName
            and handler = mock_handler and n = "example_notification Ingesting"
            and h = "mock_registry None True" and ?h1.0 = ?h1, OF three err]
  show ?thesis
    by simp
qed

end
